theory Spec2Isabelle
  imports Complex_Main
begin

section \<open>The physics backend seen from the notebook\<close>

text \<open>
  The notebook \<^verbatim>\<open>02-nesterov-minimization.ipynb\<close> drives OpenMM. A \<^verbatim>\<open>System\<close> supplies the
  potential energy and the force on every degree of freedom (DOF) of a configuration; a
  configuration is the list of the coordinates of all particles, three per particle.
  Numbers are modelled as reals: rounding, overflow and NaN of the doubles are outside
  the model.
\<close>

record system =
  numParticles :: nat
  potentialEnergy :: "real list \<Rightarrow> real"
  forces :: "real list \<Rightarrow> real list"

text \<open>
  OpenMM allocates the force buffer with one entry per DOF, so the forces of a
  configuration always have the configuration's length.
\<close>

definition force_per_dof :: "system \<Rightarrow> bool" where
  "force_per_dof s = (\<forall>xs. length (forces s xs) = length xs)"

record platform =
  getName :: string
  getPropertyNames :: "string list"
  getPropertyValue :: "string \<Rightarrow> string"

text \<open>
  A context binds a system and a platform and holds the positions.
  \<^verbatim>\<open>context.getState(getEnergy=True).getPotentialEnergy()\<close> evaluates the system's energy at
  the positions the context holds at the time of the call.
\<close>

record mm_context =
  sys :: system
  getPlatform :: platform
  positions :: "real list"

definition getPotentialEnergy :: "'a mm_context_scheme \<Rightarrow> real" where
  "getPotentialEnergy c = potentialEnergy (sys c) (positions c)"

section \<open>The custom integrator of \<^verbatim>\<open>NesterovMinimizer.__init__\<close>\<close>

text \<open>
  The context of a \<^verbatim>\<open>NesterovMinimizer\<close> also holds the variables of its custom integrator:
  the step size \<^verbatim>\<open>dt\<close>, the global variables \<^verbatim>\<open>a_cur\<close> and \<^verbatim>\<open>a_old\<close>, and the per-DOF
  variables \<^verbatim>\<open>y_cur\<close> and \<^verbatim>\<open>y_old\<close>.
\<close>

record custom_context = mm_context +
  dt :: real
  a_cur :: real
  a_old :: real
  y_cur :: "real list"
  y_old :: "real list"

text \<open>
  A per-DOF computation evaluates its expression once for every DOF, with the per-DOF
  variables \<^verbatim>\<open>x\<close>, \<^verbatim>\<open>f\<close>, \<^verbatim>\<open>y_cur\<close>, \<^verbatim>\<open>y_old\<close> bound to that DOF's entries; \<^verbatim>\<open>f\<close> is the
  force at the positions the context holds when the computation runs. Global variables
  are read from the context. (OpenMM skips the DOFs of massless particles; all particles
  are taken to have a mass here.)
\<close>

definition computePerDof ::
  "(real \<Rightarrow> real \<Rightarrow> real \<Rightarrow> real \<Rightarrow> real) \<Rightarrow> custom_context \<Rightarrow> real list" where
  "computePerDof e c =
     map (\<lambda>(x, f, yc, yo). e x f yc yo)
       (zip (positions c) (zip (forces (sys c) (positions c)) (zip (y_cur c) (y_old c))))"

text \<open>
  The five computations, in the order \<^verbatim>\<open>__init__\<close> adds them:
  \<^verbatim>\<open>
  integrator.addComputeGlobal('a_cur', '0.5*(1+sqrt(1+(4*a_old*a_old)))')
  integrator.addComputeGlobal('a_old', 'a_cur')
  integrator.addComputePerDof('y_cur', 'x + dt*f')
  integrator.addComputePerDof('y_old', 'y_cur')
  integrator.addComputePerDof('x', 'y_cur + (a_old - 1) / a_cur * (y_cur - y_old)')
  \<close>
\<close>

definition compute_a_cur :: "custom_context \<Rightarrow> custom_context" where
  "compute_a_cur c = c\<lparr>a_cur := 0.5 * (1 + sqrt (1 + (4 * a_old c * a_old c)))\<rparr>"

definition compute_a_old :: "custom_context \<Rightarrow> custom_context" where
  "compute_a_old c = c\<lparr>a_old := a_cur c\<rparr>"

definition compute_y_cur :: "custom_context \<Rightarrow> custom_context" where
  "compute_y_cur c = c\<lparr>y_cur := computePerDof (\<lambda>x f yc yo. x + dt c * f) c\<rparr>"

definition compute_y_old :: "custom_context \<Rightarrow> custom_context" where
  "compute_y_old c = c\<lparr>y_old := computePerDof (\<lambda>x f yc yo. yc) c\<rparr>"

definition compute_x :: "custom_context \<Rightarrow> custom_context" where
  "compute_x c =
     c\<lparr>positions := computePerDof (\<lambda>x f yc yo. yc + (a_old c - 1) / a_cur c * (yc - yo)) c\<rparr>"

definition computations :: "(custom_context \<Rightarrow> custom_context) list" where
  "computations = [compute_a_cur, compute_a_old, compute_y_cur, compute_y_old, compute_x]"

text \<open>One integrator step runs the computations in order, each on the context the
  previous one left.\<close>

definition one_step :: "custom_context \<Rightarrow> custom_context" where
  "one_step c = fold (\<lambda>comp c'. comp c') computations c"

text \<open>\<^verbatim>\<open>integrator.step(steps)\<close>: the loop \<^verbatim>\<open>for (i = 0; i < steps; i++)\<close> over whole steps;
  a count that is not positive runs no step.\<close>

fun step_loop :: "nat \<Rightarrow> custom_context \<Rightarrow> custom_context" where
  "step_loop 0 c = c"
| "step_loop (Suc k) c = step_loop k (one_step c)"

definition step :: "int \<Rightarrow> custom_context \<Rightarrow> custom_context" where
  "step steps c = step_loop (nat steps) c"

section \<open>The two minimizers\<close>

text \<open>
  \<^verbatim>\<open>NesterovMinimizer.__init__\<close> declares the four variables with initial value 0 (every DOF
  of a per-DOF variable starts at 0), adds the computations, creates the context and sets
  the positions. \<^verbatim>\<open>minimize\<close> is \<^verbatim>\<open>self.context.getIntegrator().step(self.numIterations)\<close>.
  The field \<^verbatim>\<open>self.context\<close> is named \<open>ctx\<close>. The platform, which OpenMM picks when the
  context is created, is an argument of the constructors. OpenMM sizes the per-DOF
  variables by the particle count of the system and rejects positions of another count;
  the model takes the number of DOFs from the positions it is given.
\<close>

record NesterovMinimizer =
  numIterations :: int
  ctx :: custom_context

definition NesterovMinimizer_init ::
  "platform \<Rightarrow> system \<Rightarrow> real list \<Rightarrow> int \<Rightarrow> real \<Rightarrow> NesterovMinimizer" where
  "NesterovMinimizer_init pf system initialPositions numIterations' stepSize =
     \<lparr>numIterations = numIterations',
      ctx = \<lparr>sys = system, getPlatform = pf, positions = initialPositions,
             dt = stepSize, a_cur = 0, a_old = 0,
             y_cur = replicate (length initialPositions) 0,
             y_old = replicate (length initialPositions) 0\<rparr>\<rparr>"

definition NesterovMinimizer_minimize :: "NesterovMinimizer \<Rightarrow> NesterovMinimizer" where
  "NesterovMinimizer_minimize self = self\<lparr>ctx := step (numIterations self) (ctx self)\<rparr>"

text \<open>
  \<^verbatim>\<open>BFGSMinimizer\<close> keeps a context (with a Verlet integrator that it never steps), a
  tolerance and an iteration cap, and hands them to \<^verbatim>\<open>mm.LocalEnergyMinimizer.minimize\<close>.
\<close>

record BFGSMinimizer =
  bfgs_ctx :: mm_context
  tolerance :: real
  maxIterations :: nat

definition BFGSMinimizer_init ::
  "platform \<Rightarrow> system \<Rightarrow> real list \<Rightarrow> real \<Rightarrow> nat \<Rightarrow> BFGSMinimizer" where
  "BFGSMinimizer_init pf system initialPositions tolerance' maxIterations' =
     \<lparr>bfgs_ctx = \<lparr>sys = system, getPlatform = pf, positions = initialPositions\<rparr>,
      tolerance = tolerance', maxIterations = maxIterations'\<rparr>"

text \<open>
  \<^verbatim>\<open>mm.LocalEnergyMinimizer.minimize\<close>, OpenMM's L-BFGS routine, is not part of the
  repository, and the specification (4.3) treats it as a black box. Its quasi-Newton
  iteration and its convergence test are parameters of the model.
\<close>

record quasi_newton =
  qn_iterate :: "system \<Rightarrow> real list \<Rightarrow> real list"
  qn_converged :: "system \<Rightarrow> real \<Rightarrow> real list \<Rightarrow> bool"

text \<open>Modelled from the spec: the loop of \<^verbatim>\<open>mm.LocalEnergyMinimizer.minimize\<close>, which is missing
  from the sources. It iterates until the convergence test holds or the cap, if there is
  one, is used up. Without a cap the loop need not end: the result is then \<open>None\<close>.
\<close>

partial_function (option) lbfgs_loop ::
  "(real list \<Rightarrow> real list) \<Rightarrow> (real list \<Rightarrow> bool) \<Rightarrow> nat option \<Rightarrow> real list
     \<Rightarrow> real list option" where
  "lbfgs_loop iterate converged cap xs =
     (if converged xs \<or> cap = Some 0 then Some xs
      else lbfgs_loop iterate converged (map_option (\<lambda>k. k - 1) cap) (iterate xs))"

text \<open>Modelled from the spec: \<^verbatim>\<open>mm.LocalEnergyMinimizer.minimize(context, tolerance,
  maxIterations)\<close>, which is missing from the sources. The specification (4.3): it "accepts
  an energy tolerance and a maximum-iteration count (zero meaning no cap, run to internal
  convergence)". It updates the positions of the context.
\<close>

definition LocalEnergyMinimizer_minimize ::
  "quasi_newton \<Rightarrow> mm_context \<Rightarrow> real \<Rightarrow> nat \<Rightarrow> mm_context option" where
  "LocalEnergyMinimizer_minimize qn c tol maxIter =
     map_option (\<lambda>xs. c\<lparr>positions := xs\<rparr>)
       (lbfgs_loop (qn_iterate qn (sys c)) (qn_converged qn (sys c) tol)
          (if maxIter = 0 then None else Some maxIter) (positions c))"

definition BFGSMinimizer_minimize :: "quasi_newton \<Rightarrow> BFGSMinimizer \<Rightarrow> BFGSMinimizer option" where
  "BFGSMinimizer_minimize qn self =
     map_option (\<lambda>c. self\<lparr>bfgs_ctx := c\<rparr>)
       (LocalEnergyMinimizer_minimize qn (bfgs_ctx self) (tolerance self) (maxIterations self))"





section \<open>The benchmark report\<close>













section \<open>Notions used to state the properties\<close>

text \<open>The per-DOF buffers of the integrator have one entry per DOF of the positions.\<close>

definition buffers_sized :: "custom_context \<Rightarrow> bool" where
  "buffers_sized c =
     (length (y_cur c) = length (positions c) \<and> length (y_old c) = length (positions c))"

text \<open>The closed form of the momentum coefficient, as a function of the previous one.\<close>

definition next_a :: "real \<Rightarrow> real" where
  "next_a a = 0.5 * (1 + sqrt (1 + 4 * a\<^sup>2))"

text \<open>Plain gradient descent with a fixed step size: \<open>x_next = x + dt * f\<close>.\<close>

definition gradient_descent_step :: "system \<Rightarrow> real \<Rightarrow> real list \<Rightarrow> real list" where
  "gradient_descent_step s h xs = map2 (\<lambda>x f. x + h * f) xs (forces s xs)"

text \<open>
  The position update as the specification words it (4.2, step 5), from the values of
  \<open>a_old\<close> and \<open>y_old\<close> before the iteration:
  \<open>x_next = y_cur + ((a_old_prev - 1) / a_cur) * (y_cur - y_old_prev)\<close> with
  \<open>y_cur = x + dt * f\<close> and \<open>a_cur = 0.5 * (1 + sqrt (1 + 4 * a_old_prev\<^sup>2))\<close>.
\<close>

definition spec_x_next ::
  "real \<Rightarrow> real \<Rightarrow> real list \<Rightarrow> real list \<Rightarrow> real list \<Rightarrow> real list" where
  "spec_x_next h a_old_prev y_old_prev x f =
     (let y_cur' = map2 (\<lambda>xi fi. xi + h * fi) x f;
          a_cur' = 0.5 * (1 + sqrt (1 + 4 * a_old_prev\<^sup>2))
      in map2 (\<lambda>yc yo. yc + ((a_old_prev - 1) / a_cur') * (yc - yo)) y_cur' y_old_prev)"

text \<open>
  A small instance to run the definitions on: one particle in the harmonic well
  \<open>E(x) = \<Sum> x\<^sub>i\<^sup>2 / 2\<close>, whose force is \<open>- x\<close>, on a platform with a device name.
\<close>

definition harmonic_well :: system where
  "harmonic_well =
     \<lparr>numParticles = 1,
      potentialEnergy = (\<lambda>xs. (\<Sum>x\<leftarrow>xs. x * x / 2)),
      forces = (\<lambda>xs. map (\<lambda>x. - x) xs)\<rparr>"

definition example_platform :: platform where
  "example_platform =
     \<lparr>getName = ''CUDA'',
      getPropertyNames = [''CudaDeviceIndex'', ''CudaDeviceName'', ''CudaPrecision''],
      getPropertyValue = (\<lambda>k. if k = ''CudaDeviceName'' then ''GeForce GTX 660''
                               else if k = ''CudaDeviceIndex'' then ''0'' else ''single'')\<rparr>"

definition example_minimizer :: "int \<Rightarrow> NesterovMinimizer" where
  "example_minimizer n = NesterovMinimizer_init example_platform harmonic_well [1, 2, 0] n (1 / 2)"

text \<open>
  An instance of the black-box routine: the iteration halves the distance to the minimum
  of the well, and the run has converged when no force component exceeds the tolerance.
\<close>

definition example_quasi_newton :: quasi_newton where
  "example_quasi_newton =
     \<lparr>qn_iterate = (\<lambda>s xs. gradient_descent_step s (1 / 2) xs),
      qn_converged = (\<lambda>s tol xs. list_all (\<lambda>f. \<bar>f\<bar> \<le> tol) (forces s xs))\<rparr>"




section \<open>One integrator step\<close>

lemma computePerDof_xf:
  assumes "length (forces (sys c) (positions c)) = length (positions c)" "buffers_sized c"
  shows "computePerDof (\<lambda>x f yc yo. g x f) c = map2 g (positions c) (forces (sys c) (positions c))"
  using assms by (auto simp: computePerDof_def buffers_sized_def intro!: nth_equalityI)

lemma computePerDof_yc:
  assumes "length (forces (sys c) (positions c)) = length (positions c)" "buffers_sized c"
  shows "computePerDof (\<lambda>x f yc yo. yc) c = y_cur c"
  using assms by (auto simp: computePerDof_def buffers_sized_def intro!: nth_equalityI)

lemma computePerDof_y:
  assumes "length (forces (sys c) (positions c)) = length (positions c)" "buffers_sized c"
  shows "computePerDof (\<lambda>x f yc yo. g yc yo) c = map2 g (y_cur c) (y_old c)"
  using assms by (auto simp: computePerDof_def buffers_sized_def intro!: nth_equalityI)

lemma one_step_unfold:
  "one_step c = compute_x (compute_y_old (compute_y_cur (compute_a_old (compute_a_cur c))))"
  by (simp add: one_step_def computations_def)

lemma one_step_eq:
  assumes "force_per_dof (sys c)" "buffers_sized c"
  shows "one_step c =
           c\<lparr>positions := gradient_descent_step (sys c) (dt c) (positions c),
             a_cur := next_a (a_old c), a_old := next_a (a_old c),
             y_cur := gradient_descent_step (sys c) (dt c) (positions c),
             y_old := gradient_descent_step (sys c) (dt c) (positions c)\<rparr>"
proof -
  let ?xs = "positions c"
  let ?Y = "gradient_descent_step (sys c) (dt c) (positions c)"
  from assms(1) have len_f: "\<And>xs. length (forces (sys c) xs) = length xs"
    by (simp add: force_per_dof_def)
  have len_Y: "length ?Y = length ?xs"
    by (simp add: gradient_descent_step_def len_f)
  define c2 where "c2 = compute_a_old (compute_a_cur c)"
  have c2: "c2 = c\<lparr>a_cur := next_a (a_old c), a_old := next_a (a_old c)\<rparr>"
    by (simp add: c2_def compute_a_old_def compute_a_cur_def next_a_def power2_eq_square)
  have sized2: "buffers_sized c2"
    using assms(2) by (simp add: c2 buffers_sized_def)
  have c3: "compute_y_cur c2 = c2\<lparr>y_cur := ?Y\<rparr>"
    unfolding compute_y_cur_def
    by (subst computePerDof_xf [OF _ sized2]) (simp_all add: c2 len_f gradient_descent_step_def)
  have sized3: "buffers_sized (c2\<lparr>y_cur := ?Y\<rparr>)"
    using assms(2) by (simp add: c2 buffers_sized_def len_Y)
  have c4: "compute_y_old (c2\<lparr>y_cur := ?Y\<rparr>) = c2\<lparr>y_cur := ?Y, y_old := ?Y\<rparr>"
    unfolding compute_y_old_def
    by (subst computePerDof_yc [OF _ sized3]) (simp_all add: c2 len_f)
  have sized4: "buffers_sized (c2\<lparr>y_cur := ?Y, y_old := ?Y\<rparr>)"
    by (simp add: c2 buffers_sized_def len_Y)
  have same: "map2 g ?Y ?Y = ?Y" if "\<And>y. g y y = y" for g :: "real \<Rightarrow> real \<Rightarrow> real"
    by (rule nth_equalityI) (simp_all add: that)
  have c5: "compute_x (c2\<lparr>y_cur := ?Y, y_old := ?Y\<rparr>)
              = c2\<lparr>y_cur := ?Y, y_old := ?Y, positions := ?Y\<rparr>"
    unfolding compute_x_def
    by (subst computePerDof_y [OF _ sized4]) (simp_all add: c2 len_f same)
  have "one_step c = compute_x (compute_y_old (compute_y_cur c2))"
    by (simp add: one_step_unfold c2_def)
  then show ?thesis
    by (simp add: c3 c4 c5) (simp add: c2)
qed

lemma buffers_sized_one_step:
  assumes "force_per_dof (sys c)" "buffers_sized c"
  shows "buffers_sized (one_step c)"
  using assms
  by (simp add: one_step_eq buffers_sized_def gradient_descent_step_def force_per_dof_def)

lemma positions_one_step:
  assumes "force_per_dof (sys c)" "buffers_sized c"
  shows "positions (one_step c) = gradient_descent_step (sys c) (dt c) (positions c)"
  using assms by (simp add: one_step_eq)

lemma one_step_globals:
  "a_cur (one_step c) = next_a (a_old c)" "a_old (one_step c) = next_a (a_old c)"
  "dt (one_step c) = dt c" "sys (one_step c) = sys c" "getPlatform (one_step c) = getPlatform c"
  by (simp_all add: one_step_unfold compute_x_def compute_y_old_def
      compute_y_cur_def compute_a_old_def compute_a_cur_def next_a_def power2_eq_square)

section \<open>The loop of \<^verbatim>\<open>step\<close>\<close>

lemma step_loop_funpow: "step_loop k c = (one_step ^^ k) c"
  by (induction k arbitrary: c) (simp_all add: funpow_swap1)

lemma step_loop_Suc: "step_loop (Suc k) c = one_step (step_loop k c)"
  by (simp add: step_loop_funpow)

lemma step_loop_add: "step_loop k (step_loop j c) = step_loop (k + j) c"
  by (simp add: step_loop_funpow funpow_add)

lemma sys_dt_step_loop:
  "sys (step_loop k c) = sys c \<and> dt (step_loop k c) = dt c
     \<and> getPlatform (step_loop k c) = getPlatform c"
  by (induction k) (simp_all only: step_loop_Suc one_step_globals step_loop.simps simp_thms)

lemma buffers_sized_step_loop:
  assumes "force_per_dof (sys c)" "buffers_sized c"
  shows "buffers_sized (step_loop k c)"
proof (induction k)
  case 0
  then show ?case using assms by simp
next
  case (Suc k)
  then show ?case
    unfolding step_loop_Suc using assms(1)
    by (intro buffers_sized_one_step) (simp_all add: sys_dt_step_loop)
qed

lemma positions_step_loop:
  assumes "force_per_dof (sys c)" "buffers_sized c"
  shows "positions (step_loop k c) = (gradient_descent_step (sys c) (dt c) ^^ k) (positions c)"
proof (induction k)
  case 0
  then show ?case by simp
next
  case (Suc k)
  have "positions (step_loop (Suc k) c)
      = gradient_descent_step (sys c) (dt c) (positions (step_loop k c))"
    unfolding step_loop_Suc using assms
    by (subst positions_one_step) (simp_all add: sys_dt_step_loop buffers_sized_step_loop)
  then show ?case by (simp add: Suc.IH)
qed

lemma a_old_step_loop: "a_old (step_loop k c) = (next_a ^^ k) (a_old c)"
  by (induction k) (simp_all only: step_loop_Suc one_step_globals step_loop.simps funpow.simps
      o_apply id_apply)

section \<open>The momentum coefficient\<close>

lemma next_a_recurrence: "(next_a a)\<^sup>2 - next_a a = a\<^sup>2"
proof -
  have s: "(sqrt (1 + 4 * a\<^sup>2))\<^sup>2 = 1 + 4 * a\<^sup>2"
    by (intro real_sqrt_pow2) (simp add: add_nonneg_nonneg)
  have "(next_a a)\<^sup>2 - next_a a = ((sqrt (1 + 4 * a\<^sup>2))\<^sup>2 - 1) / 4"
    by (simp add: next_a_def power2_eq_square algebra_simps)
  also have "\<dots> = a\<^sup>2"
    by (simp add: s)
  finally show ?thesis .
qed

lemma next_a_gt: "a + 1 / 2 < next_a a"
proof -
  have "\<bar>2 * a\<bar> = sqrt ((2 * a)\<^sup>2)" by (simp only: real_sqrt_abs)
  also have "\<dots> < sqrt (1 + 4 * a\<^sup>2)"
    by (subst real_sqrt_less_iff) (simp add: power2_eq_square)
  finally have "2 * a < sqrt (1 + 4 * a\<^sup>2)" by linarith
  then show ?thesis by (simp add: next_a_def)
qed

lemma next_a_ge1: "1 \<le> next_a a"
proof -
  have "1 \<le> sqrt (1 + 4 * a\<^sup>2)" by simp
  then show ?thesis by (simp add: next_a_def)
qed

section \<open>The small instance\<close>

lemma harmonic_well_per_dof: "force_per_dof harmonic_well"
  by (simp add: force_per_dof_def harmonic_well_def)

lemma buffers_sized_init: "buffers_sized (ctx (NesterovMinimizer_init pf s ps n h))"
  by (simp add: buffers_sized_def NesterovMinimizer_init_def)

lemma example_first_step:
  "one_step (ctx (example_minimizer n)) =
     \<lparr>sys = harmonic_well, getPlatform = example_platform, positions = [1 / 2, 1, 0],
      dt = 1 / 2, a_cur = 1, a_old = 1, y_cur = [1 / 2, 1, 0], y_old = [1 / 2, 1, 0]\<rparr>"
  by (simp add: example_minimizer_def NesterovMinimizer_init_def one_step_unfold
      compute_x_def compute_y_old_def compute_y_cur_def compute_a_old_def compute_a_cur_def
      computePerDof_def harmonic_well_def)

lemma example_run:
  "ctx (NesterovMinimizer_minimize (example_minimizer 2)) =
     \<lparr>sys = harmonic_well, getPlatform = example_platform, positions = [1 / 4, 1 / 2, 0],
      dt = 1 / 2, a_cur = (1 + sqrt 5) / 2, a_old = (1 + sqrt 5) / 2,
      y_cur = [1 / 4, 1 / 2, 0], y_old = [1 / 4, 1 / 2, 0]\<rparr>"
proof -
  have "ctx (NesterovMinimizer_minimize (example_minimizer 2))
          = one_step (one_step (ctx (example_minimizer 2)))"
    by (simp add: NesterovMinimizer_minimize_def step_def example_minimizer_def
        NesterovMinimizer_init_def numeral_2_eq_2)
  then show ?thesis
    unfolding example_first_step
    by (simp add: one_step_unfold
      compute_x_def compute_y_old_def compute_y_cur_def compute_a_old_def compute_a_cur_def
      computePerDof_def harmonic_well_def)
qed

lemma example_third_step:
  "positions (one_step (ctx (NesterovMinimizer_minimize (example_minimizer 2)))) = [1 / 8, 1 / 4, 0]"
  unfolding example_run
  by (simp add: one_step_unfold
      compute_x_def compute_y_old_def compute_y_cur_def compute_a_old_def compute_a_cur_def
      computePerDof_def harmonic_well_def)

lemma example_third_spec:
  "spec_x_next (dt (ctx (NesterovMinimizer_minimize (example_minimizer 2))))
     (a_old (ctx (NesterovMinimizer_minimize (example_minimizer 2))))
     (y_old (ctx (NesterovMinimizer_minimize (example_minimizer 2))))
     (positions (ctx (NesterovMinimizer_minimize (example_minimizer 2))))
     (forces (sys (ctx (NesterovMinimizer_minimize (example_minimizer 2))))
        (positions (ctx (NesterovMinimizer_minimize (example_minimizer 2)))))
   \<noteq> [1 / 8, 1 / 4, 0]"
proof -
  define k where "k = ((1 + sqrt 5) / 2 - 1) / next_a ((1 + sqrt 5) / 2)"
  have "sqrt 5 > 1" by simp
  then have "(1 + sqrt 5) / 2 - 1 > 0" by simp
  moreover have "next_a ((1 + sqrt 5) / 2) > 0"
    using next_a_ge1 [of "(1 + sqrt 5) / 2"] by linarith
  ultimately have "k > 0" by (simp add: k_def)
  have "spec_x_next (1 / 2) ((1 + sqrt 5) / 2) [1 / 4, 1 / 2, 0] [1 / 4, 1 / 2, 0]
          (forces harmonic_well [1 / 4, 1 / 2, 0])
        = [1 / 8 + k * (1 / 8 - 1 / 4), 1 / 4 + k * (1 / 4 - 1 / 2), 0]"
    by (simp add: spec_x_next_def Let_def harmonic_well_def k_def next_a_def)
  moreover have "1 / 8 + k * (1 / 8 - 1 / 4) \<noteq> 1 / 8"
    using \<open>k > 0\<close> by simp
  ultimately show ?thesis
    by (simp add: example_run)
qed

section \<open>The position update\<close>

text \<open>
  Claim C1. The specification asks that the new position be
  \<open>x_next = y_cur + ((a_old_prev - 1) / a_cur) * (y_cur - y_old_prev)\<close>, read from the values
  \<open>a_old\<close> and \<open>y_old\<close> had before the iteration. The integrator program overwrites both
  before the position update reads them. On the first iteration of the small instance
  (positions \<open>[1, 2, 0]\<close>, force \<open>- x\<close>, step size \<open>1/2\<close>, \<open>a_old = 0\<close>, \<open>y_old = [0, 0, 0]\<close>)
  the program moves the positions to \<open>[1/2, 1, 0]\<close>, where the specified update gives
  \<open>[0, 0, 0]\<close>. On the third iteration, after a run of two, the program moves them to
  \<open>[1/8, 1/4, 0]\<close>, and the specified update gives other positions.
\<close>

theorem C1_update_reads_overwritten_values:
  "positions (one_step (ctx (example_minimizer n))) = [1 / 2, 1, 0] \<and>
   spec_x_next (dt (ctx (example_minimizer n))) (a_old (ctx (example_minimizer n)))
     (y_old (ctx (example_minimizer n))) (positions (ctx (example_minimizer n)))
     (forces (sys (ctx (example_minimizer n))) (positions (ctx (example_minimizer n))))
     = [0, 0, 0] \<and>
   positions (one_step (ctx (NesterovMinimizer_minimize (example_minimizer 2))))
     = [1 / 8, 1 / 4, 0] \<and>
   spec_x_next (dt (ctx (NesterovMinimizer_minimize (example_minimizer 2))))
     (a_old (ctx (NesterovMinimizer_minimize (example_minimizer 2))))
     (y_old (ctx (NesterovMinimizer_minimize (example_minimizer 2))))
     (positions (ctx (NesterovMinimizer_minimize (example_minimizer 2))))
     (forces (sys (ctx (NesterovMinimizer_minimize (example_minimizer 2))))
        (positions (ctx (NesterovMinimizer_minimize (example_minimizer 2)))))
     \<noteq> [1 / 8, 1 / 4, 0]"
proof -
  have "spec_x_next (dt (ctx (example_minimizer n))) (a_old (ctx (example_minimizer n)))
     (y_old (ctx (example_minimizer n))) (positions (ctx (example_minimizer n)))
     (forces (sys (ctx (example_minimizer n))) (positions (ctx (example_minimizer n))))
     = [0, 0, 0]"
    by (simp add: example_minimizer_def NesterovMinimizer_init_def spec_x_next_def
        harmonic_well_def)
  with example_third_step example_third_spec show ?thesis
    by (simp only: example_first_step mm_context.simps simp_thms)
qed

text \<open>
  Claim C9. In the integrator program, when the position update is evaluated \<open>y_old\<close> has
  just been overwritten with \<open>y_cur\<close>, so the extrapolation term vanishes: one step moves
  the positions by plain gradient descent, \<open>x_next = x + dt * f\<close>, and so does every step
  of a run.
\<close>

theorem C9_plain_gradient_descent:
  assumes "force_per_dof (sys c)" "buffers_sized c"
  shows "one_step c = compute_x (compute_y_old (compute_y_cur (compute_a_old (compute_a_cur c)))) \<and>
         y_old (compute_y_old (compute_y_cur (compute_a_old (compute_a_cur c))))
           = y_cur (compute_y_old (compute_y_cur (compute_a_old (compute_a_cur c)))) \<and>
         positions (one_step c)
           = map2 (\<lambda>x f. x + dt c * f) (positions c) (forces (sys c) (positions c)) \<and>
         positions (step_loop k c) = (gradient_descent_step (sys c) (dt c) ^^ k) (positions c)"
proof -
  let ?c3 = "compute_y_cur (compute_a_old (compute_a_cur c))"
  have "buffers_sized ?c3"
    using assms
    by (simp add: buffers_sized_def compute_y_cur_def compute_a_old_def compute_a_cur_def
        computePerDof_def force_per_dof_def)
  moreover have "length (forces (sys ?c3) (positions ?c3)) = length (positions ?c3)"
    using assms(1)
    by (simp add: force_per_dof_def compute_y_cur_def compute_a_old_def compute_a_cur_def)
  ultimately have "y_old (compute_y_old ?c3) = y_cur (compute_y_old ?c3)"
    by (simp add: compute_y_old_def computePerDof_yc)
  then show ?thesis
    using positions_one_step [OF assms] positions_step_loop [OF assms]
    by (simp add: gradient_descent_step_def one_step_unfold)
qed

theorem C9_witness:
  "force_per_dof (sys (ctx (example_minimizer 2))) \<and> buffers_sized (ctx (example_minimizer 2)) \<and>
   positions (step_loop 2 (ctx (example_minimizer 2))) = [1 / 4, 1 / 2, 0]"
proof -
  have p: "force_per_dof (sys (ctx (example_minimizer 2)))"
    by (simp add: example_minimizer_def NesterovMinimizer_init_def harmonic_well_per_dof)
  have b: "buffers_sized (ctx (example_minimizer 2))"
    by (simp add: example_minimizer_def buffers_sized_init)
  from C9_plain_gradient_descent [OF p b, of 2]
  have "positions (step_loop 2 (ctx (example_minimizer 2)))
      = (gradient_descent_step (sys (ctx (example_minimizer 2))) (dt (ctx (example_minimizer 2))) ^^ 2)
          (positions (ctx (example_minimizer 2)))"
    by (elim conjE)
  also have "\<dots> = [1 / 4, 1 / 2, 0]"
    by (simp add: example_minimizer_def NesterovMinimizer_init_def gradient_descent_step_def
        harmonic_well_def numeral_2_eq_2)
  finally have "positions (step_loop 2 (ctx (example_minimizer 2))) = [1 / 4, 1 / 2, 0]" .
  with p b show ?thesis by simp
qed

section \<open>The momentum coefficients of a run\<close>

lemma a_cur_eq_a_old_init:
  "a_cur (step_loop k (ctx (NesterovMinimizer_init pf s ps n h)))
     = a_old (step_loop k (ctx (NesterovMinimizer_init pf s ps n h)))"
  by (cases k) (simp_all only: step_loop_Suc one_step_globals step_loop.simps,
      simp add: NesterovMinimizer_init_def)

text \<open>
  Claim C2. The coefficients are seeded with \<open>a_old = 0\<close> by the constructor, and after
  every step of the integrator, from any context, the new \<open>a_cur\<close> satisfies the Nesterov
  recurrence \<open>a_cur\<^sup>2 - a_cur = a_old_prev\<^sup>2\<close> exactly over the reals, where \<open>a_old_prev\<close> is
  the value of \<open>a_old\<close> before the step; so it holds for every iteration of a run, the
  first twenty included.
\<close>

theorem C2_momentum_recurrence:
  "a_old (ctx (NesterovMinimizer_init pf s ps n h)) = 0 \<and>
   (a_cur (step_loop (Suc k) c))\<^sup>2 - a_cur (step_loop (Suc k) c) = (a_old (step_loop k c))\<^sup>2"
  by (simp only: step_loop_Suc one_step_globals next_a_recurrence)
    (simp add: NesterovMinimizer_init_def)

text \<open>
  Claim C10. In a run that starts from a freshly constructed minimizer (\<open>a_cur = a_old = 0\<close>),
  \<open>a_cur\<close> is 1 after the first iteration, is at least 1 after every iteration, grows by
  more than \<open>1/2\<close> with each iteration, and the coefficient \<open>(a_cur - 1) / a_cur\<close> lies in
  \<open>[0, 1)\<close>.
\<close>

theorem C10_coefficient_growth:
  "a_cur (step_loop 1 (ctx (NesterovMinimizer_init pf s ps n h))) = 1 \<and>
   1 \<le> a_cur (step_loop (Suc k) (ctx (NesterovMinimizer_init pf s ps n h))) \<and>
   a_cur (step_loop k (ctx (NesterovMinimizer_init pf s ps n h))) + 1 / 2
     < a_cur (step_loop (Suc k) (ctx (NesterovMinimizer_init pf s ps n h))) \<and>
   0 \<le> (a_cur (step_loop (Suc k) (ctx (NesterovMinimizer_init pf s ps n h))) - 1)
         / a_cur (step_loop (Suc k) (ctx (NesterovMinimizer_init pf s ps n h))) \<and>
   (a_cur (step_loop (Suc k) (ctx (NesterovMinimizer_init pf s ps n h))) - 1)
         / a_cur (step_loop (Suc k) (ctx (NesterovMinimizer_init pf s ps n h))) < 1"
proof -
  let ?c0 = "ctx (NesterovMinimizer_init pf s ps n h)"
  let ?a = "a_cur (step_loop (Suc k) ?c0)"
  have first: "a_cur (step_loop 1 ?c0) = 1"
    by (simp add: one_step_globals next_a_def NesterovMinimizer_init_def)
  have next_eq: "?a = next_a (a_cur (step_loop k ?c0))"
    by (simp only: step_loop_Suc one_step_globals a_cur_eq_a_old_init)
  have ge1: "1 \<le> ?a"
    by (simp only: next_eq next_a_ge1)
  have grow: "a_cur (step_loop k ?c0) + 1 / 2 < ?a"
    by (simp only: next_eq next_a_gt)
  from ge1 have "0 \<le> (?a - 1) / ?a" "(?a - 1) / ?a < 1"
    by simp_all
  with first ge1 grow show ?thesis
    by blast
qed

section \<open>Runs of \<^verbatim>\<open>minimize\<close>\<close>

text \<open>
  Claim C4. \<^verbatim>\<open>minimize\<close> of a \<^verbatim>\<open>NesterovMinimizer\<close> applies the integrator step exactly
  \<open>numIterations\<close> times to the context (no time for a count that is not positive), whatever
  the positions and forces are: no convergence test stops it early. The count can be read
  off the momentum state, which has advanced by exactly that many coefficient updates.
\<close>

theorem C4_exact_iteration_count:
  "NesterovMinimizer_minimize m = m\<lparr>ctx := (one_step ^^ nat (numIterations m)) (ctx m)\<rparr> \<and>
   a_old (ctx (NesterovMinimizer_minimize m)) = (next_a ^^ nat (numIterations m)) (a_old (ctx m))"
  by (simp add: NesterovMinimizer_minimize_def step_def a_old_step_loop)
    (simp add: step_loop_funpow)

text \<open>
  Claim C3, as the code has it. The momentum state is set once, by the constructor:
  \<open>a_cur = a_old = 0\<close> and \<open>y_cur = y_old = 0\<close> on every DOF (not the configuration).
  \<^verbatim>\<open>minimize\<close> does not reset it: a second call on the same instance continues from the
  state the first call left, so that two calls leave the context a single run of twice
  the iterations would.
\<close>

theorem C3_state_set_by_constructor:
  "a_cur (ctx (NesterovMinimizer_init pf s ps n h)) = 0 \<and>
   a_old (ctx (NesterovMinimizer_init pf s ps n h)) = 0 \<and>
   y_cur (ctx (NesterovMinimizer_init pf s ps n h)) = replicate (length ps) 0 \<and>
   y_old (ctx (NesterovMinimizer_init pf s ps n h)) = replicate (length ps) 0 \<and>
   positions (ctx (NesterovMinimizer_init pf s ps n h)) = ps \<and>
   ctx (NesterovMinimizer_minimize (NesterovMinimizer_minimize m))
     = step_loop (nat (numIterations m) + nat (numIterations m)) (ctx m)"
  by (simp add: NesterovMinimizer_init_def NesterovMinimizer_minimize_def step_def step_loop_add)

text \<open>
  The claim as stated fails: after one call of \<^verbatim>\<open>minimize\<close> with one iteration on the small
  instance, \<open>a_old\<close> is 1 when the second call starts, and the second call ends in another
  state (\<open>a_cur = (1 + sqrt 5) / 2\<close>) than it would from a reset momentum state
  (\<open>a_cur = 1\<close>). Before the first call \<open>y_old\<close> is \<open>[0, 0, 0]\<close>, not the configuration.
\<close>

theorem C3_no_reset_counterexample:
  "a_old (ctx (NesterovMinimizer_minimize (example_minimizer 1))) = 1 \<and>
   a_cur (ctx (NesterovMinimizer_minimize (NesterovMinimizer_minimize (example_minimizer 1))))
     = (1 + sqrt 5) / 2 \<and>
   a_cur (ctx (NesterovMinimizer_minimize
      ((NesterovMinimizer_minimize (example_minimizer 1))
         \<lparr>ctx := (ctx (NesterovMinimizer_minimize (example_minimizer 1)))
            \<lparr>a_old := 0,
             y_old := positions (ctx (NesterovMinimizer_minimize (example_minimizer 1)))\<rparr>\<rparr>)))
     = 1 \<and>
   (1 + sqrt 5) / 2 \<noteq> (1 :: real) \<and>
   y_old (ctx (example_minimizer 1)) = [0, 0, 0] \<and>
   positions (ctx (example_minimizer 1)) = [1, 2, 0]"
proof -
  have m: "numIterations (example_minimizer 1) = 1"
    by (simp add: example_minimizer_def NesterovMinimizer_init_def)
  have one: "ctx (NesterovMinimizer_minimize (example_minimizer 1))
               = one_step (ctx (example_minimizer 1))"
    by (simp add: NesterovMinimizer_minimize_def step_def m)
  have "sqrt 5 \<noteq> 1" by simp
  then have "(1 + sqrt 5) / 2 \<noteq> (1 :: real)" by simp
  then show ?thesis
    unfolding one example_first_step
    by (simp add: NesterovMinimizer_minimize_def step_def m one example_first_step
        one_step_globals next_a_def)
      (simp add: example_minimizer_def NesterovMinimizer_init_def)
qed

section \<open>Decimal output\<close>












section \<open>The benchmark\<close>





















section \<open>A run without iterations\<close>

text \<open>
  Claim C5, as the code has it. A \<^verbatim>\<open>NesterovMinimizer\<close> whose \<open>numIterations\<close> is 0 is left as it
  is by \<^verbatim>\<open>minimize\<close>: positions and momentum state are not touched, and the potential energy
  of its context stays what it was. (For the \<^verbatim>\<open>BFGSMinimizer\<close> a cap of 0 means no cap.)
\<close>

theorem C5_zero_iterations_nesterov:
  assumes "numIterations m = 0"
  shows "NesterovMinimizer_minimize m = m \<and>
         positions (ctx (NesterovMinimizer_minimize m)) = positions (ctx m) \<and>
         getPotentialEnergy (ctx (NesterovMinimizer_minimize m)) = getPotentialEnergy (ctx m)"
  using assms by (simp add: NesterovMinimizer_minimize_def step_def)

theorem C5_witness:
  "numIterations (example_minimizer 0) = 0 \<and>
   positions (ctx (NesterovMinimizer_minimize (example_minimizer 0))) = [1, 2, 0] \<and>
   getPotentialEnergy (ctx (NesterovMinimizer_minimize (example_minimizer 0))) = 5 / 2"
proof -
  have z: "numIterations (example_minimizer 0) = 0"
    by (simp add: example_minimizer_def NesterovMinimizer_init_def)
  from C5_zero_iterations_nesterov [OF z]
  have "NesterovMinimizer_minimize (example_minimizer 0) = example_minimizer 0"
    by (rule conjunct1)
  then show ?thesis
    by (simp add: z)
      (simp add: example_minimizer_def NesterovMinimizer_init_def getPotentialEnergy_def
        harmonic_well_def)
qed

text \<open>
  The claim as stated fails for the baseline: a \<^verbatim>\<open>BFGSMinimizer\<close> with \<open>maxIterations = 0\<close> on
  the small instance runs the routine until it has converged, which moves the positions
  from \<open>[1, 2, 0]\<close> to \<open>[1/4, 1/2, 0]\<close> and the energy from \<open>5/2\<close> to \<open>5/32\<close>.
\<close>

theorem C5_baseline_counterexample:
  "maxIterations (BFGSMinimizer_init example_platform harmonic_well [1, 2, 0] (1 / 2) 0) = 0 \<and>
   positions (bfgs_ctx (BFGSMinimizer_init example_platform harmonic_well [1, 2, 0] (1 / 2) 0))
     = [1, 2, 0] \<and>
   BFGSMinimizer_minimize example_quasi_newton
       (BFGSMinimizer_init example_platform harmonic_well [1, 2, 0] (1 / 2) 0)
     = Some \<lparr>bfgs_ctx = \<lparr>sys = harmonic_well, getPlatform = example_platform,
                          positions = [1 / 4, 1 / 2, 0]\<rparr>,
             tolerance = 1 / 2, maxIterations = 0\<rparr> \<and>
   potentialEnergy harmonic_well [1, 2, 0] = 5 / 2 \<and>
   potentialEnergy harmonic_well [1 / 4, 1 / 2, 0] = 5 / 32"
proof -
  let ?it = "qn_iterate example_quasi_newton harmonic_well"
  let ?conv = "qn_converged example_quasi_newton harmonic_well (1 / 2)"
  have it: "?it [1, 2, 0] = [1 / 2, 1, 0]" "?it [1 / 2, 1, 0] = [1 / 4, 1 / 2, 0]"
    by (simp_all add: example_quasi_newton_def gradient_descent_step_def harmonic_well_def)
  have conv: "\<not> ?conv [1, 2, 0]" "\<not> ?conv [1 / 2, 1, 0]" "?conv [1 / 4, 1 / 2, 0]"
    by (simp_all add: example_quasi_newton_def harmonic_well_def)
  have "lbfgs_loop ?it ?conv None [1, 2, 0] = lbfgs_loop ?it ?conv None [1 / 2, 1, 0]"
    by (subst lbfgs_loop.simps) (simp add: it conv)
  also have "\<dots> = lbfgs_loop ?it ?conv None [1 / 4, 1 / 2, 0]"
    by (subst lbfgs_loop.simps) (simp add: it conv)
  also have "\<dots> = Some [1 / 4, 1 / 2, 0]"
    by (subst lbfgs_loop.simps) (simp add: conv)
  finally have "lbfgs_loop ?it ?conv None [1, 2, 0] = Some [1 / 4, 1 / 2, 0]" .
  then show ?thesis
    by (simp add: BFGSMinimizer_minimize_def LocalEnergyMinimizer_minimize_def
        BFGSMinimizer_init_def)
      (simp add: harmonic_well_def)
qed

end
